theory Spec2Isabelle
  imports Main "HOL-Library.Sublist"
begin

section \<open>JavaScript values and the host interface\<close>

text \<open>
  The dispatcher receives its arguments from an untyped caller: the attribute text is either a
  string or \<open>undefined\<close> (a dismissed input box, or a parameter that the caller left out), and
  the value caught by a \<open>catch\<close> clause is an error object with a name and a message, or some
  other value. One datatype covers the three shapes that occur.
\<close>

datatype js_value = Undefined | Str string | ErrorObj string string

text \<open>The condition of \<open>if (v)\<close>: \<open>undefined\<close> and the empty string are falsy.\<close>

fun truthy :: "js_value \<Rightarrow> bool" where
  "truthy Undefined = False"
| "truthy (Str s) = (s \<noteq> [])"
| "truthy (ErrorObj n m) = True"

text \<open>
  What a template literal \<open>`${v}`\<close> inserts. For an error object this is
  \<open>Error.prototype.toString\<close>: the name, the message, or both joined by a colon.
\<close>

fun to_string :: "js_value \<Rightarrow> string" where
  "to_string Undefined = ''undefined''"
| "to_string (Str s) = s"
| "to_string (ErrorObj n m) = (if n = [] then m else if m = [] then n else n @ '': '' @ m)"

text \<open>The test \<open>typeof error === 'object' && error !== null && 'message' in error\<close>.\<close>

fun has_message :: "js_value \<Rightarrow> bool" where
  "has_message (ErrorObj n m) = True"
| "has_message v = False"

text \<open>The property read \<open>error.message\<close>; a string has no such property.\<close>

fun message :: "js_value \<Rightarrow> js_value" where
  "message (ErrorObj n m) = Str m"
| "message v = Undefined"

text \<open>
  The outcome of handing a command line to the process primitive (\<open>execSync\<close>, or the
  promisified \<open>exec\<close>): the captured standard output when the exit code is 0, otherwise the
  value that is thrown, respectively the value the promise is rejected with.
\<close>

datatype exec_result = Exited0 string | Failed js_value

text \<open>
  Everything the extension does is visible as a call to the host: notifications, the input
  box, the console, the information panel, and the process primitive. A run is the list of
  these calls in the order in which they are made.
\<close>

datatype effect =
    ShowErrorMessage string
  | ShowInformationMessage string
  | ShowInputBox string
  | ConsoleError js_value
  | ConsoleInfo string
  | CreateWebviewPanel string
  | DisposePanel
  | Exec string

fun is_Exec :: "effect \<Rightarrow> bool" where
  "is_Exec (Exec c) = True"
| "is_Exec e = False"

fun is_panel :: "effect \<Rightarrow> bool" where
  "is_panel (CreateWebviewPanel h) = True"
| "is_panel DisposePanel = True"
| "is_panel e = False"

fun is_success_report :: "effect \<Rightarrow> bool" where
  "is_success_report (ShowInformationMessage m) = True"
| "is_success_report (ConsoleInfo m) = True"
| "is_success_report e = False"

text \<open>
  The parts of the environment that the code reads but does not define: \<open>__dirname\<close>,
  \<open>path.resolve\<close>, \<open>vscode.workspace.asRelativePath(_, false)\<close>, and the behaviour of the
  shell on a command line.
\<close>

record host =
  dirname :: string
  path_resolve :: "string \<Rightarrow> string \<Rightarrow> string"
  asRelativePath :: "string \<Rightarrow> string"
  exec :: "string \<Rightarrow> exec_result"

text \<open>
  The decorative glyphs of the messages, as their UTF-8 bytes: U+1F6D1 (stop sign),
  U+1F199 (up button), U+23E9 (fast forward), U+2728 (sparkles).
\<close>

definition stop_sign :: string where
  "stop_sign = [CHR 0xF0, CHR 0x9F, CHR 0x9B, CHR 0x91]"

definition up_button :: string where
  "up_button = [CHR 0xF0, CHR 0x9F, CHR 0x86, CHR 0x99]"

definition fast_forward :: string where
  "fast_forward = [CHR 0xE2, CHR 0x8F, CHR 0xA9]"

definition sparkles :: string where
  "sparkles = [CHR 0xE2, CHR 0x9C, CHR 0xA8]"

definition missing_attributes :: string where
  "missing_attributes = stop_sign @ '' Required attributes missing''"

definition no_script_found :: "string \<Rightarrow> string" where
  "no_script_found scriptId = stop_sign @ '' No script found for radio button ID: '' @ scriptId"

section \<open>The dispatcher of hangarScripts.ts (synchronous, three parameters)\<close>

text \<open>
  \<open>executeScript(scriptName, scriptPath, scriptAttributes)\<close>: the command line is the template
  literal \<open>`cd ${scriptPath} ; ./${scriptName} ${scriptAttributes}`\<close>; a thrown value is logged
  and shown, with its message when it has one.
\<close>

definition executeScript_ts :: "host \<Rightarrow> string \<Rightarrow> js_value \<Rightarrow> js_value \<Rightarrow> effect list" where
  "executeScript_ts h scriptName scriptPath scriptAttributes =
     (let cmd = ''cd '' @ to_string scriptPath @ '' ; ./'' @ scriptName @ '' '' @ to_string scriptAttributes
      in Exec cmd #
         (case exec h cmd of
            Exited0 out \<Rightarrow> []
          | Failed error \<Rightarrow>
              if has_message error
              then [ConsoleError (Str (''Error executing script: '' @ to_string (message error))),
                    ShowErrorMessage (''Error executing script: '' @ to_string (message error))]
              else [ConsoleError (Str (''Error executing script: '' @ to_string error)),
                    ShowErrorMessage (''Error executing script: '' @ to_string error)]))"

text \<open>
  \<open>displayPanel(htmlContent)\<close>: the panel is created with the content and a closing hint, and
  disposed by the timer that the method awaits.
\<close>

definition displayPanel :: "string \<Rightarrow> effect list" where
  "displayPanel htmlContent =
     [CreateWebviewPanel (htmlContent @ ''<br><p>You can close this tab now.</p>''), DisposePanel]"

definition createRepoSh_ts :: "host \<Rightarrow> string \<Rightarrow> js_value \<Rightarrow> js_value \<Rightarrow> effect list" where
  "createRepoSh_ts h scriptName scriptPath scriptAttributes =
     (if truthy scriptAttributes
      then displayPanel (''<h1>'' @ up_button @ '' THE REPO HAS BEEN CREATED !!!</h1>'')
           @ executeScript_ts h scriptName scriptPath scriptAttributes
      else [ShowErrorMessage missing_attributes])"

definition addSecretSh_ts :: "host \<Rightarrow> string \<Rightarrow> js_value \<Rightarrow> js_value \<Rightarrow> effect list" where
  "addSecretSh_ts h scriptName scriptPath scriptAttributes =
     (if truthy scriptAttributes
      then displayPanel (''<h1>'' @ fast_forward @ '' THE SECRET HAS BEEN ADDED !!!</h1>'')
           @ executeScript_ts h scriptName scriptPath scriptAttributes
      else [ShowErrorMessage missing_attributes])"

definition pipelineGeneratorSh_ts :: "host \<Rightarrow> string \<Rightarrow> js_value \<Rightarrow> js_value \<Rightarrow> effect list" where
  "pipelineGeneratorSh_ts h scriptName scriptPath scriptAttributes =
     (if truthy scriptAttributes
      then displayPanel (''<h1>'' @ fast_forward @ '' THE PIPELINE HAS BEEN CREATED !!!</h1>'')
           @ executeScript_ts h scriptName scriptPath scriptAttributes
      else [ShowErrorMessage missing_attributes])"

definition scriptSelector_ts :: "host \<Rightarrow> string \<Rightarrow> js_value \<Rightarrow> js_value \<Rightarrow> effect list" where
  "scriptSelector_ts h scriptId scriptPath scriptAttributes =
     (if scriptId = ''create-repo.sh'' then createRepoSh_ts h scriptId scriptPath scriptAttributes
      else if scriptId = ''add-secret.sh'' then addSecretSh_ts h scriptId scriptPath scriptAttributes
      else if scriptId = ''pipeline_generator.sh''
        then pipelineGeneratorSh_ts h ''pipeline_generator.sh'' scriptPath scriptAttributes
      else [ShowErrorMessage (no_script_found scriptId)])"

section \<open>The dispatcher of hangarScripts.js (promisified, two parameters)\<close>

text \<open>
  \<open>executeScript(scriptPath, scriptName, scriptAttributes)\<close> returns the standard output, or
  throws \<open>new Error(`${error}`)\<close>; the result is \<open>Inr\<close> of the output or \<open>Inl\<close> of what is thrown.
\<close>

definition executeScript_js ::
    "host \<Rightarrow> string \<Rightarrow> string \<Rightarrow> js_value \<Rightarrow> effect list \<times> (js_value + string)" where
  "executeScript_js h scriptPath scriptName scriptAttributes =
     (let cmd = ''cd '' @ scriptPath @ '' ; ./'' @ scriptName @ '' '' @ to_string scriptAttributes
      in ([Exec cmd],
          case exec h cmd of
            Exited0 out \<Rightarrow> Inr out
          | Failed error \<Rightarrow> Inl (ErrorObj ''Error'' (to_string error))))"

definition getScriptRelativePath :: "host \<Rightarrow> string \<Rightarrow> string" where
  "getScriptRelativePath h subdirectory =
     asRelativePath h (path_resolve h (dirname h) (''../../scripts/'' @ subdirectory))"

definition createRepoSh_js :: "host \<Rightarrow> string \<Rightarrow> js_value \<Rightarrow> effect list" where
  "createRepoSh_js h scriptName scriptAttributes =
     (let scriptPath = getScriptRelativePath h ''repositories/github'';
          (effects, result) = executeScript_js h scriptPath scriptName scriptAttributes
      in effects @
         (case result of
            Inr out \<Rightarrow> [ConsoleInfo (''STDOUT'' @ [CHR 0x0A] @ out),
                         ShowInformationMessage (up_button @ '' CREATING REPO ...'')]
          | Inl error \<Rightarrow> [ConsoleError error, ShowErrorMessage (to_string error)]))"

definition pipelineGeneratorSh_js :: "host \<Rightarrow> string \<Rightarrow> js_value \<Rightarrow> effect list" where
  "pipelineGeneratorSh_js h scriptName scriptAttributes =
     (let scriptPath = getScriptRelativePath h ''pipelines/github'';
          (effects, result) = executeScript_js h scriptPath scriptName scriptAttributes
      in effects @
         (case result of
            Inr out \<Rightarrow> [ConsoleInfo (''STDOUT'' @ [CHR 0x0A] @ out),
                         ShowInformationMessage (fast_forward @ '' GENERATING PIPELINE ...'')]
          | Inl error \<Rightarrow> [ConsoleError error, ShowErrorMessage (to_string error)]))"

definition scriptSelector_js :: "host \<Rightarrow> string \<Rightarrow> js_value \<Rightarrow> effect list" where
  "scriptSelector_js h radioButtonId scriptAttributes =
     (if radioButtonId = ''create-repo.sh'' then createRepoSh_js h ''create-repo.sh'' scriptAttributes
      else if radioButtonId = ''pipeline_generator.sh''
        then pipelineGeneratorSh_js h ''pipeline_generator.sh'' scriptAttributes
      else [ShowErrorMessage (no_script_found radioButtonId)])"

section \<open>The run command of extension.ts\<close>

datatype TreeItemCheckboxState = Unchecked | Checked

record radioButton =
  id_rb :: string
  label_rb :: string
  checkboxState :: TreeItemCheckboxState

text \<open>The \<open>forEach\<close> loop that pushes the id of every checked radio button.\<close>

definition selectedScriptIds :: "radioButton list \<Rightarrow> string list" where
  "selectedScriptIds radioButtons =
     foldl (\<lambda>ids radioButton.
              if checkboxState radioButton = Checked then ids @ [id_rb radioButton] else ids)
           [] radioButtons"

definition select_only_one :: string where
  "select_only_one = ''ERROR: Please select only one script at a time.''"

definition attributes_prompt :: string where
  "attributes_prompt = sparkles @ '' Enter ALL attributes separated by space ...''"

text \<open>
  The handler of \<open>hangar-cicd.runScripts\<close>, over the dispatcher it calls with two arguments
  and the value the input box resolves to.
\<close>

definition runScripts ::
    "(string \<Rightarrow> js_value \<Rightarrow> effect list) \<Rightarrow> radioButton list \<Rightarrow> js_value \<Rightarrow> effect list" where
  "runScripts scriptSelector radioButtons inputBoxValue =
     (let ids = selectedScriptIds radioButtons
      in if length ids > 1 then [ShowErrorMessage select_only_one]
         else if length ids = 1
           then ShowInputBox attributes_prompt # scriptSelector (ids ! 0) inputBoxValue
         else [])"

text \<open>
  The call \<open>hangarScripts.scriptSelector(selectedScriptIds[0], scriptAttributes)\<close> against the
  three-parameter method of hangarScripts.ts: the second argument is bound to \<open>scriptPath\<close>, and
  the parameter \<open>scriptAttributes\<close>, for which no argument is given, is \<open>undefined\<close>.
\<close>

definition scriptSelector_ts_2 :: "host \<Rightarrow> string \<Rightarrow> js_value \<Rightarrow> effect list" where
  "scriptSelector_ts_2 h scriptId arg = scriptSelector_ts h scriptId arg Undefined"

section \<open>The Selection Model\<close>

text \<open>
  Modelled from the spec: the Selection Model and its \<open>toggle\<close> operation. The class
  RadioButtonDataProvider that holds the radio buttons is imported by extension.ts but is not
  among the sources. An Action has an id, a label and a checked flag; the model owns the
  ordered Actions and the two triggers; \<open>toggle(id)\<close> flips the checked state of the Action
  with the given id and does nothing when no Action has that id. Ids are unique, so the
  Action with the id is the first one found in the sequence.
\<close>

record action =
  action_id :: string
  action_label :: string
  checked :: bool

record trigger =
  trigger_label :: string
  trigger_command :: string

record selection_model =
  actions :: "action list"
  run_trigger :: trigger
  documentation_trigger :: trigger

fun toggle_actions :: "string \<Rightarrow> action list \<Rightarrow> action list" where
  "toggle_actions i [] = []"
| "toggle_actions i (a # as) =
     (if action_id a = i then a\<lparr>checked := \<not> checked a\<rparr> # as else a # toggle_actions i as)"

definition toggle :: "string \<Rightarrow> selection_model \<Rightarrow> selection_model" where
  "toggle i m = m\<lparr>actions := toggle_actions i (actions m)\<rparr>"

section \<open>Concrete environments for the scenarios\<close>

text \<open>
  An installation under \<open>/ext/out/src\<close> whose scripts directory lies outside the workspace
  (so \<open>asRelativePath\<close> returns its argument), with a shell on which every command exits with
  code 0 and prints \<open>ok\<close>; and the same installation with a shell on which every command fails.
\<close>

definition host_ok :: host where
  "host_ok = \<lparr> dirname = ''/ext/out/src'',
               path_resolve = (\<lambda>from to. from @ ''/'' @ to),
               asRelativePath = (\<lambda>p. p),
               exec = (\<lambda>cmd. Exited0 ''ok'') \<rparr>"

definition host_fail :: host where
  "host_fail = \<lparr> dirname = ''/ext/out/src'',
                 path_resolve = (\<lambda>from to. from @ ''/'' @ to),
                 asRelativePath = (\<lambda>p. p),
                 exec = (\<lambda>cmd. Failed (ErrorObj ''Error'' (''Command failed: '' @ cmd))) \<rparr>"

definition catalog :: "radioButton list" where
  "catalog =
     [\<lparr> id_rb = ''create-repo.sh'',
        label_rb = up_button @ '' Create repo (repositories/github)'',
        checkboxState = Unchecked \<rparr>,
      \<lparr> id_rb = ''pipeline_generator.sh'',
        label_rb = fast_forward @ '' Pipeline generator (pipelines/github)'',
        checkboxState = Unchecked \<rparr>]"

text \<open>
  The model that \<open>createRadioButtonDataProvider\<close> builds at activation: the two catalog entries,
  unchecked, and the run and documentation triggers.
\<close>

definition initial_model :: selection_model where
  "initial_model =
     \<lparr> actions =
         [\<lparr> action_id = ''create-repo.sh'',
            action_label = up_button @ '' Create repo (repositories/github)'',
            checked = False \<rparr>,
          \<lparr> action_id = ''pipeline_generator.sh'',
            action_label = fast_forward @ '' Pipeline generator (pipelines/github)'',
            checked = False \<rparr>],
       run_trigger = \<lparr> trigger_label = ''RUN'', trigger_command = ''hangar-cicd.runScripts'' \<rparr>,
       documentation_trigger =
         \<lparr> trigger_label = ''OPEN DOCUMENTATION'', trigger_command = ''hangar-cicd.openDocu'' \<rparr> \<rparr>"

text \<open>
  The text of a caught value as executeScript reports it: its message when it has one,
  otherwise its rendering as a string.
\<close>

definition error_text :: "js_value \<Rightarrow> string" where
  "error_text error = (if has_message error then to_string (message error) else to_string error)"



section \<open>The shell's reading of a command line\<close>

text \<open>
  The command line is run by \<open>/bin/sh\<close>, the shell that \<open>exec\<close> and \<open>execSync\<close> start; it is
  not code of the extension. What is modelled here is its token recognition on a text that
  carries no quoting and no substitution: space and tab separate tokens; each of the operator
  characters \<open>| & ; ( ) < >\<close> and the newline is a token of its own (an operator of two
  characters appears as its two characters); every other character, carriage return, vertical
  tab and form feed among them, belongs to a word. The words that follow the word of a command,
  up to the next operator, are its arguments. A text with a backslash, a quote, a dollar sign,
  a backquote or a hash is outside this fragment, and \<open>sh_tokens\<close> gives no answer for it.
\<close>

datatype sh_token = is_Word: Word string | is_Op: Op (op_char: char)







section \<open>The runs of the two dispatchers\<close>

lemma createRepoSh_js_run:
  "createRepoSh_js h scriptName scriptAttributes =
     Exec (''cd '' @ getScriptRelativePath h ''repositories/github'' @ '' ; ./'' @ scriptName
             @ '' '' @ to_string scriptAttributes) #
     (case exec h (''cd '' @ getScriptRelativePath h ''repositories/github'' @ '' ; ./'' @ scriptName
             @ '' '' @ to_string scriptAttributes) of
        Exited0 out \<Rightarrow> [ConsoleInfo (''STDOUT'' @ [CHR 0x0A] @ out),
                         ShowInformationMessage (up_button @ '' CREATING REPO ...'')]
      | Failed error \<Rightarrow> [ConsoleError (ErrorObj ''Error'' (to_string error)),
                          ShowErrorMessage (to_string (ErrorObj ''Error'' (to_string error)))])"
  unfolding createRepoSh_js_def executeScript_js_def Let_def
  by (simp split: exec_result.split)

lemma pipelineGeneratorSh_js_run:
  "pipelineGeneratorSh_js h scriptName scriptAttributes =
     Exec (''cd '' @ getScriptRelativePath h ''pipelines/github'' @ '' ; ./'' @ scriptName
             @ '' '' @ to_string scriptAttributes) #
     (case exec h (''cd '' @ getScriptRelativePath h ''pipelines/github'' @ '' ; ./'' @ scriptName
             @ '' '' @ to_string scriptAttributes) of
        Exited0 out \<Rightarrow> [ConsoleInfo (''STDOUT'' @ [CHR 0x0A] @ out),
                         ShowInformationMessage (fast_forward @ '' GENERATING PIPELINE ...'')]
      | Failed error \<Rightarrow> [ConsoleError (ErrorObj ''Error'' (to_string error)),
                          ShowErrorMessage (to_string (ErrorObj ''Error'' (to_string error)))])"
  unfolding pipelineGeneratorSh_js_def executeScript_js_def Let_def
  by (simp split: exec_result.split)

lemma scriptSelector_ts_falsy:
  assumes "\<not> truthy scriptAttributes"
  shows "scriptSelector_ts h scriptId scriptPath scriptAttributes =
           [ShowErrorMessage
              (if scriptId \<in> {''create-repo.sh'', ''add-secret.sh'', ''pipeline_generator.sh''}
               then missing_attributes else no_script_found scriptId)]"
  using assms
  by (simp add: scriptSelector_ts_def createRepoSh_ts_def addSecretSh_ts_def
        pipelineGeneratorSh_ts_def)

lemma filter_is_Exec_executeScript_ts:
  "filter is_Exec (executeScript_ts h scriptName scriptPath scriptAttributes) =
     [Exec (''cd '' @ to_string scriptPath @ '' ; ./'' @ scriptName @ '' '' @ to_string scriptAttributes)]"
  by (simp add: executeScript_ts_def Let_def split: exec_result.split)

lemma scriptSelector_ts_truthy:
  assumes "truthy scriptAttributes"
    and "scriptId \<in> {''create-repo.sh'', ''add-secret.sh'', ''pipeline_generator.sh''}"
  shows "filter (\<lambda>e. \<not> is_panel e) (scriptSelector_ts h scriptId scriptPath scriptAttributes)
           = filter (\<lambda>e. \<not> is_panel e) (executeScript_ts h scriptId scriptPath scriptAttributes)"
  using assms
  by (auto simp add: scriptSelector_ts_def createRepoSh_ts_def addSecretSh_ts_def
        pipelineGeneratorSh_ts_def displayPanel_def)

lemma executeScript_ts_no_panel:
  "filter (\<lambda>e. \<not> is_panel e) (executeScript_ts h scriptName scriptPath scriptAttributes)
     = executeScript_ts h scriptName scriptPath scriptAttributes"
  by (simp add: executeScript_ts_def Let_def split: exec_result.split)

lemma executeScript_ts_failed:
  assumes "exec h (''cd '' @ to_string scriptPath @ '' ; ./'' @ scriptName @ '' ''
                     @ to_string scriptAttributes) = Failed error"
  shows "executeScript_ts h scriptName scriptPath scriptAttributes =
           [Exec (''cd '' @ to_string scriptPath @ '' ; ./'' @ scriptName @ '' ''
                     @ to_string scriptAttributes),
            ConsoleError (Str (''Error executing script: '' @ error_text error)),
            ShowErrorMessage (''Error executing script: '' @ error_text error)]"
  using assms by (simp add: executeScript_ts_def Let_def error_text_def)

lemma executeScript_ts_exited0:
  assumes "exec h (''cd '' @ to_string scriptPath @ '' ; ./'' @ scriptName @ '' ''
                     @ to_string scriptAttributes) = Exited0 out"
  shows "executeScript_ts h scriptName scriptPath scriptAttributes =
           [Exec (''cd '' @ to_string scriptPath @ '' ; ./'' @ scriptName @ '' ''
                     @ to_string scriptAttributes)]"
  using assms by (simp add: executeScript_ts_def Let_def)

lemma sublist_message: "sublist m (to_string (ErrorObj n m))"
proof -
  have "sublist m (n @ '': '' @ m)"
    unfolding append_assoc [symmetric] by (rule sublist_append_leftI)
  then show ?thesis by simp
qed

lemma sublist_error_text: "sublist (error_text error) (to_string error)"
  by (cases error) (simp_all add: error_text_def sublist_message del: to_string.simps(3))

lemma sublist_rethrown: "sublist (error_text error) (to_string (ErrorObj ''Error'' (to_string error)))"
proof -
  have "sublist (to_string error) (to_string (ErrorObj ''Error'' (to_string error)))"
    by (rule sublist_message)
  with sublist_error_text [of error] show ?thesis
    by (rule sublist_order.order.trans)
qed

section \<open>Unknown action ids\<close>

text \<open>
  C2. For every action id outside the known mapping (create-repo.sh, add-secret.sh,
  pipeline_generator.sh), the dispatcher, in the synchronous and in the promisified variant
  and whatever the other arguments are, does exactly one thing: it shows the error
  notification "No script found for radio button ID: " followed by the unknown id. It spawns
  no process.
\<close>

theorem unknown_action_rejected:
  assumes "scriptId \<notin> {''create-repo.sh'', ''add-secret.sh'', ''pipeline_generator.sh''}"
  shows "scriptSelector_ts h scriptId scriptPath scriptAttributes
           = [ShowErrorMessage (stop_sign @ '' No script found for radio button ID: '' @ scriptId)]
       \<and> scriptSelector_js h scriptId scriptAttributes
           = [ShowErrorMessage (stop_sign @ '' No script found for radio button ID: '' @ scriptId)]
       \<and> filter is_Exec (scriptSelector_ts h scriptId scriptPath scriptAttributes) = []
       \<and> filter is_Exec (scriptSelector_js h scriptId scriptAttributes) = []
       \<and> sublist scriptId (stop_sign @ '' No script found for radio button ID: '' @ scriptId)"
proof -
  have mentions: "sublist scriptId (stop_sign @ '' No script found for radio button ID: '' @ scriptId)"
    unfolding append_assoc [symmetric] by (rule sublist_append_leftI)
  have ts: "scriptSelector_ts h scriptId scriptPath scriptAttributes
              = [ShowErrorMessage (stop_sign @ '' No script found for radio button ID: '' @ scriptId)]"
    using assms by (simp add: scriptSelector_ts_def no_script_found_def)
  have js: "scriptSelector_js h scriptId scriptAttributes
              = [ShowErrorMessage (stop_sign @ '' No script found for radio button ID: '' @ scriptId)]"
    using assms by (simp add: scriptSelector_js_def no_script_found_def)
  have "filter is_Exec (scriptSelector_ts h scriptId scriptPath scriptAttributes) = []"
    unfolding ts by simp
  moreover have "filter is_Exec (scriptSelector_js h scriptId scriptAttributes) = []"
    unfolding js by simp
  ultimately show ?thesis using ts js mentions by blast
qed

theorem unknown_action_rejected_witness:
  "''nonexistent.sh'' \<notin> {''create-repo.sh'', ''add-secret.sh'', ''pipeline_generator.sh''}
   \<and> scriptSelector_ts host_ok ''nonexistent.sh'' (Str ''/tmp'') (Str ''-x'')
       = [ShowErrorMessage (stop_sign @ '' No script found for radio button ID: nonexistent.sh'')]
   \<and> scriptSelector_js host_ok ''nonexistent.sh'' (Str ''-x'')
       = [ShowErrorMessage (stop_sign @ '' No script found for radio button ID: nonexistent.sh'')]"
  using unknown_action_rejected [of "''nonexistent.sh''" host_ok "Str ''/tmp''" "Str ''-x''"]
  by simp

section \<open>The validation gate\<close>

lemma selectedScriptIds_acc:
  "foldl (\<lambda>ids radioButton.
              if checkboxState radioButton = Checked then ids @ [id_rb radioButton] else ids)
         acc radioButtons
   = acc @ map id_rb (filter (\<lambda>radioButton. checkboxState radioButton = Checked) radioButtons)"
  by (induction radioButtons arbitrary: acc) simp_all

lemma selectedScriptIds_filter:
  "selectedScriptIds radioButtons
     = map id_rb (filter (\<lambda>radioButton. checkboxState radioButton = Checked) radioButtons)"
  by (simp add: selectedScriptIds_def selectedScriptIds_acc)

text \<open>
  C3. The handler of the run command behaves by the number of checked radio buttons. With more
  than one checked, the run is the single error notification "ERROR: Please select only one
  script at a time.": no input box, no call of the dispatcher. With none checked, the run is
  empty. With exactly one checked, the input box is shown and the dispatcher is then called
  with the id of that radio button, unchanged, and the value of the input box.
\<close>

theorem validation_gate:
  "(1 < length (filter (\<lambda>rb. checkboxState rb = Checked) radioButtons)
      \<longrightarrow> runScripts scriptSelector radioButtons inputBoxValue
            = [ShowErrorMessage ''ERROR: Please select only one script at a time.''])
   \<and> (filter (\<lambda>rb. checkboxState rb = Checked) radioButtons = []
      \<longrightarrow> runScripts scriptSelector radioButtons inputBoxValue = [])
   \<and> (filter (\<lambda>rb. checkboxState rb = Checked) radioButtons = [radioButton]
      \<longrightarrow> runScripts scriptSelector radioButtons inputBoxValue
            = ShowInputBox attributes_prompt # scriptSelector (id_rb radioButton) inputBoxValue)"
  by (simp add: runScripts_def selectedScriptIds_filter select_only_one_def)

theorem validation_gate_witness:
  "runScripts (scriptSelector_js host_ok)
       (catalog [0 := (catalog ! 0)\<lparr>checkboxState := Checked\<rparr>,
                 1 := (catalog ! 1)\<lparr>checkboxState := Checked\<rparr>])
       (Str ''-x'')
     = [ShowErrorMessage ''ERROR: Please select only one script at a time.'']
   \<and> runScripts (scriptSelector_js host_ok) catalog (Str ''-x'') = []
   \<and> runScripts (scriptSelector_js host_ok)
       (catalog [1 := (catalog ! 1)\<lparr>checkboxState := Checked\<rparr>]) (Str ''-x'')
     = ShowInputBox attributes_prompt # scriptSelector_js host_ok ''pipeline_generator.sh'' (Str ''-x'')"
  using validation_gate [of "catalog [0 := (catalog ! 0)\<lparr>checkboxState := Checked\<rparr>,
                                      1 := (catalog ! 1)\<lparr>checkboxState := Checked\<rparr>]"
           "scriptSelector_js host_ok" "Str ''-x''" "catalog ! 0"]
        validation_gate [of catalog "scriptSelector_js host_ok" "Str ''-x''" "catalog ! 0"]
        validation_gate [of "catalog [1 := (catalog ! 1)\<lparr>checkboxState := Checked\<rparr>]"
           "scriptSelector_js host_ok" "Str ''-x''" "(catalog ! 1)\<lparr>checkboxState := Checked\<rparr>"]
  by (simp add: catalog_def)

section \<open>Toggling an Action\<close>

lemma toggle_actions_twice: "toggle_actions i (toggle_actions i as) = as"
  by (induction as) simp_all

lemma toggle_actions_unknown: "i \<notin> action_id ` set as \<Longrightarrow> toggle_actions i as = as"
  by (induction as) auto

lemma flipped_differs: "a\<lparr>checked := \<not> checked a\<rparr> \<noteq> a"
proof
  assume "a\<lparr>checked := \<not> checked a\<rparr> = a"
  then have "checked (a\<lparr>checked := \<not> checked a\<rparr>) = checked a" by simp
  then show False by simp
qed

lemma toggle_actions_flips: "i \<in> action_id ` set as \<Longrightarrow> toggle_actions i as \<noteq> as"
  by (induction as) (auto simp: flipped_differs)

text \<open>
  C10. For every id and every model, whatever the checked states are, toggling the same id
  twice in succession gives back the model it started from, and with it the checked state of
  every Action; and toggling an id that no Action of the catalog has changes nothing.
\<close>

theorem toggle_twice:
  "toggle i (toggle i m) = m
   \<and> map checked (actions (toggle i (toggle i m))) = map checked (actions m)
   \<and> (i \<notin> action_id ` set (actions m) \<longrightarrow> toggle i m = m)"
  by (simp add: toggle_def toggle_actions_twice toggle_actions_unknown)

theorem toggle_twice_witness:
  "toggle ''create-repo.sh'' (toggle ''create-repo.sh'' initial_model) = initial_model
   \<and> toggle ''create-repo.sh'' initial_model \<noteq> initial_model
   \<and> ''nonexistent.sh'' \<notin> action_id ` set (actions initial_model)
   \<and> toggle ''nonexistent.sh'' initial_model = initial_model"
proof -
  have unknown: "''nonexistent.sh'' \<notin> action_id ` set (actions initial_model)"
    by (simp add: initial_model_def)
  have flipped: "actions (toggle ''create-repo.sh'' initial_model) \<noteq> actions initial_model"
    by (simp add: toggle_def initial_model_def)
  then have "toggle ''create-repo.sh'' initial_model \<noteq> initial_model"
    by auto
  then show ?thesis
    using unknown toggle_twice [of "''create-repo.sh''" initial_model]
      toggle_twice [of "''nonexistent.sh''" initial_model]
    by simp
qed

section \<open>Missing attributes\<close>

text \<open>
  C1, as the code has it. In hangarScripts.ts, a call of scriptSelector whose attributes are the
  empty string or undefined shows exactly one error notification and spawns no process: the
  notification is "Required attributes missing" for each of the three mapped ids, and "No script
  found for radio button ID: ..." for any other id.
\<close>

theorem falsy_attributes_rejected:
  assumes "scriptAttributes = Undefined \<or> scriptAttributes = Str []"
  shows "scriptSelector_ts h scriptId scriptPath scriptAttributes =
           [ShowErrorMessage
              (if scriptId \<in> {''create-repo.sh'', ''add-secret.sh'', ''pipeline_generator.sh''}
               then stop_sign @ '' Required attributes missing''
               else stop_sign @ '' No script found for radio button ID: '' @ scriptId)]
       \<and> filter is_Exec (scriptSelector_ts h scriptId scriptPath scriptAttributes) = []"
proof -
  from assms have "\<not> truthy scriptAttributes" by auto
  then have run: "scriptSelector_ts h scriptId scriptPath scriptAttributes =
           [ShowErrorMessage
              (if scriptId \<in> {''create-repo.sh'', ''add-secret.sh'', ''pipeline_generator.sh''}
               then missing_attributes else no_script_found scriptId)]"
    by (rule scriptSelector_ts_falsy)
  have "filter is_Exec (scriptSelector_ts h scriptId scriptPath scriptAttributes) = []"
    unfolding run by simp
  with run show ?thesis
    by (simp only: missing_attributes_def no_script_found_def simp_thms)
qed

theorem falsy_attributes_rejected_witness:
  "scriptSelector_ts host_ok ''pipeline_generator.sh'' (Str ''/tmp'') (Str [])
     = [ShowErrorMessage (stop_sign @ '' Required attributes missing'')]
   \<and> scriptSelector_ts host_ok ''create-repo.sh'' (Str ''/tmp'') Undefined
     = [ShowErrorMessage (stop_sign @ '' Required attributes missing'')]"
  using falsy_attributes_rejected [of "Str []" host_ok "''pipeline_generator.sh''" "Str ''/tmp''"]
    falsy_attributes_rejected [of Undefined host_ok "''create-repo.sh''" "Str ''/tmp''"]
  by simp

text \<open>
  The claim as stated fails in both variants. In hangarScripts.ts the test is the truthiness
  of the attributes, so a single blank passes it and the script is executed; hangarScripts.js
  has no test at all, so the empty string and undefined are interpolated and executed.
\<close>

theorem blank_attributes_counterexample:
  "scriptSelector_ts host_ok ''create-repo.sh'' (Str ''/tmp'') (Str '' '')
     = [CreateWebviewPanel (''<h1>'' @ up_button
          @ '' THE REPO HAS BEEN CREATED !!!</h1><br><p>You can close this tab now.</p>''),
        DisposePanel,
        Exec ''cd /tmp ; ./create-repo.sh  '']
   \<and> scriptSelector_js host_ok ''pipeline_generator.sh'' (Str [])
     = [Exec ''cd /ext/out/src/../../scripts/pipelines/github ; ./pipeline_generator.sh '',
        ConsoleInfo (''STDOUT'' @ [CHR 0x0A] @ ''ok''),
        ShowInformationMessage (fast_forward @ '' GENERATING PIPELINE ...'')]
   \<and> scriptSelector_js host_ok ''create-repo.sh'' Undefined
     = [Exec ''cd /ext/out/src/../../scripts/repositories/github ; ./create-repo.sh undefined'',
        ConsoleInfo (''STDOUT'' @ [CHR 0x0A] @ ''ok''),
        ShowInformationMessage (up_button @ '' CREATING REPO ...'')]"
  by (simp add: scriptSelector_ts_def createRepoSh_ts_def displayPanel_def executeScript_ts_def
        scriptSelector_js_def pipelineGeneratorSh_js_run createRepoSh_js_run
        getScriptRelativePath_def host_ok_def)

section \<open>The run command against the three-parameter dispatcher\<close>

text \<open>
  C7. The run handler passes two arguments to the scriptSelector of hangarScripts.ts, which has
  three parameters: the text the user entered is bound to scriptPath, and scriptAttributes is
  undefined. So for each of the three mapped ids and every text, the call shows the error
  "Required attributes missing" and nothing else; a run of the handler with that one radio
  button checked is the input box followed by this error, and no process is spawned.
\<close>

theorem two_argument_call_never_runs:
  assumes "scriptId \<in> {''create-repo.sh'', ''add-secret.sh'', ''pipeline_generator.sh''}"
  shows "scriptSelector_ts_2 h scriptId userText = scriptSelector_ts h scriptId userText Undefined
       \<and> scriptSelector_ts_2 h scriptId userText
           = [ShowErrorMessage (stop_sign @ '' Required attributes missing'')]
       \<and> (filter (\<lambda>rb. checkboxState rb = Checked) radioButtons = [radioButton]
            \<and> id_rb radioButton = scriptId
          \<longrightarrow> runScripts (scriptSelector_ts_2 h) radioButtons userText
                = [ShowInputBox attributes_prompt,
                   ShowErrorMessage (stop_sign @ '' Required attributes missing'')])"
proof -
  have "\<not> truthy Undefined" by simp
  then have "scriptSelector_ts h scriptId userText Undefined =
           [ShowErrorMessage
              (if scriptId \<in> {''create-repo.sh'', ''add-secret.sh'', ''pipeline_generator.sh''}
               then missing_attributes else no_script_found scriptId)]"
    by (rule scriptSelector_ts_falsy)
  with assms have run: "scriptSelector_ts_2 h scriptId userText
           = [ShowErrorMessage (stop_sign @ '' Required attributes missing'')]"
    by (simp only: scriptSelector_ts_2_def missing_attributes_def if_True)
  have "runScripts (scriptSelector_ts_2 h) radioButtons userText
                = [ShowInputBox attributes_prompt,
                   ShowErrorMessage (stop_sign @ '' Required attributes missing'')]"
    if "filter (\<lambda>rb. checkboxState rb = Checked) radioButtons = [radioButton]"
      and "id_rb radioButton = scriptId"
    using that run by (simp add: runScripts_def selectedScriptIds_filter)
  moreover have "scriptSelector_ts_2 h scriptId userText = scriptSelector_ts h scriptId userText Undefined"
    by (simp only: scriptSelector_ts_2_def)
  ultimately show ?thesis using run by blast
qed

theorem two_argument_call_never_runs_witness:
  "runScripts (scriptSelector_ts_2 host_ok)
       (catalog [0 := (catalog ! 0)\<lparr>checkboxState := Checked\<rparr>])
       (Str ''-a create -n repo-test -d /tmp/x'')
     = [ShowInputBox attributes_prompt,
        ShowErrorMessage (stop_sign @ '' Required attributes missing'')]"
  using two_argument_call_never_runs [of "''create-repo.sh''" host_ok
          "Str ''-a create -n repo-test -d /tmp/x''"
          "catalog [0 := (catalog ! 0)\<lparr>checkboxState := Checked\<rparr>]"
          "(catalog ! 0)\<lparr>checkboxState := Checked\<rparr>"]
  by (simp add: catalog_def)

section \<open>A dismissed input box\<close>

text \<open>
  C9. When the input box resolves to undefined, the run handler with one checked radio button
  still calls the dispatcher, with the id of that button and undefined as the attributes. In
  hangarScripts.js a call with undefined attributes executes the mapped script with the word
  "undefined" as its argument text.
\<close>

theorem dismissed_prompt_still_dispatches:
  "(filter (\<lambda>rb. checkboxState rb = Checked) radioButtons = [radioButton]
      \<longrightarrow> runScripts scriptSelector radioButtons Undefined
            = ShowInputBox attributes_prompt # scriptSelector (id_rb radioButton) Undefined)
   \<and> filter is_Exec (scriptSelector_js h ''create-repo.sh'' Undefined)
       = [Exec (''cd '' @ getScriptRelativePath h ''repositories/github''
                  @ '' ; ./create-repo.sh undefined'')]
   \<and> filter is_Exec (scriptSelector_js h ''pipeline_generator.sh'' Undefined)
       = [Exec (''cd '' @ getScriptRelativePath h ''pipelines/github''
                  @ '' ; ./pipeline_generator.sh undefined'')]"
proof -
  have gate: "runScripts scriptSelector radioButtons Undefined
            = ShowInputBox attributes_prompt # scriptSelector (id_rb radioButton) Undefined"
    if "filter (\<lambda>rb. checkboxState rb = Checked) radioButtons = [radioButton]"
    using that by (simp add: runScripts_def selectedScriptIds_filter)
  have js1: "filter is_Exec (scriptSelector_js h ''create-repo.sh'' Undefined)
       = [Exec (''cd '' @ getScriptRelativePath h ''repositories/github''
                  @ '' ; ./create-repo.sh undefined'')]"
    by (simp add: scriptSelector_js_def createRepoSh_js_run split: exec_result.split)
  have js2: "filter is_Exec (scriptSelector_js h ''pipeline_generator.sh'' Undefined)
       = [Exec (''cd '' @ getScriptRelativePath h ''pipelines/github''
                  @ '' ; ./pipeline_generator.sh undefined'')]"
    by (simp add: scriptSelector_js_def pipelineGeneratorSh_js_run split: exec_result.split)
  show ?thesis using gate js1 js2 by blast
qed

theorem dismissed_prompt_still_dispatches_witness:
  "runScripts (scriptSelector_js host_ok)
       (catalog [0 := (catalog ! 0)\<lparr>checkboxState := Checked\<rparr>]) Undefined
     = [ShowInputBox attributes_prompt,
        Exec ''cd /ext/out/src/../../scripts/repositories/github ; ./create-repo.sh undefined'',
        ConsoleInfo (''STDOUT'' @ [CHR 0x0A] @ ''ok''),
        ShowInformationMessage (up_button @ '' CREATING REPO ...'')]"
  using dismissed_prompt_still_dispatches [of
          "catalog [0 := (catalog ! 0)\<lparr>checkboxState := Checked\<rparr>]"
          "(catalog ! 0)\<lparr>checkboxState := Checked\<rparr>" "scriptSelector_js host_ok" host_ok]
  by (simp add: catalog_def scriptSelector_js_def createRepoSh_js_run getScriptRelativePath_def
        host_ok_def)

section \<open>The mapped scripts\<close>

lemma filter_is_panel_executeScript_ts:
  "filter is_panel (executeScript_ts h scriptName scriptPath scriptAttributes) = []"
  by (simp add: executeScript_ts_def Let_def split: exec_result.split)

lemma filter_is_Exec_scriptSelector_ts:
  assumes "truthy scriptAttributes"
    and "scriptId \<in> {''create-repo.sh'', ''add-secret.sh'', ''pipeline_generator.sh''}"
  shows "filter is_Exec (scriptSelector_ts h scriptId scriptPath scriptAttributes)
           = [Exec (''cd '' @ to_string scriptPath @ '' ; ./'' @ scriptId @ '' ''
                      @ to_string scriptAttributes)]"
  using assms
  by (auto simp add: scriptSelector_ts_def createRepoSh_ts_def addSecretSh_ts_def
        pipelineGeneratorSh_ts_def displayPanel_def filter_is_Exec_executeScript_ts)

text \<open>
  C5, as the code has it. hangarScripts.js maps two ids. For create-repo.sh and for
  pipeline_generator.sh, with any attributes, the dispatcher resolves the path of the category
  directory (repositories/github, pipelines/github) under ../../scripts of its own directory,
  made relative to the workspace, executes the script of that id there with the attributes
  appended, and reports only after the outcome of that execution is known. hangarScripts.ts
  maps three ids, add-secret.sh among them; it resolves no path but changes to the script
  path it is given, and with non-empty attributes it executes the script of that id with the
  attributes appended.
\<close>

theorem mapped_scripts_run:
  "getScriptRelativePath h subdirectory
     = asRelativePath h (path_resolve h (dirname h) (''../../scripts/'' @ subdirectory))
   \<and> scriptSelector_js h ''create-repo.sh'' scriptAttributes
     = Exec (''cd '' @ getScriptRelativePath h ''repositories/github'' @ '' ; ./create-repo.sh ''
               @ to_string scriptAttributes) #
       (case exec h (''cd '' @ getScriptRelativePath h ''repositories/github''
                       @ '' ; ./create-repo.sh '' @ to_string scriptAttributes) of
          Exited0 out \<Rightarrow> [ConsoleInfo (''STDOUT'' @ [CHR 0x0A] @ out),
                           ShowInformationMessage (up_button @ '' CREATING REPO ...'')]
        | Failed error \<Rightarrow> [ConsoleError (ErrorObj ''Error'' (to_string error)),
                            ShowErrorMessage (to_string (ErrorObj ''Error'' (to_string error)))])
   \<and> scriptSelector_js h ''pipeline_generator.sh'' scriptAttributes
     = Exec (''cd '' @ getScriptRelativePath h ''pipelines/github'' @ '' ; ./pipeline_generator.sh ''
               @ to_string scriptAttributes) #
       (case exec h (''cd '' @ getScriptRelativePath h ''pipelines/github''
                       @ '' ; ./pipeline_generator.sh '' @ to_string scriptAttributes) of
          Exited0 out \<Rightarrow> [ConsoleInfo (''STDOUT'' @ [CHR 0x0A] @ out),
                           ShowInformationMessage (fast_forward @ '' GENERATING PIPELINE ...'')]
        | Failed error \<Rightarrow> [ConsoleError (ErrorObj ''Error'' (to_string error)),
                            ShowErrorMessage (to_string (ErrorObj ''Error'' (to_string error)))])
   \<and> (truthy scriptAttributes
        \<and> scriptId \<in> {''create-repo.sh'', ''add-secret.sh'', ''pipeline_generator.sh''}
      \<longrightarrow> filter is_Exec (scriptSelector_ts h scriptId scriptPath scriptAttributes)
            = [Exec (''cd '' @ to_string scriptPath @ '' ; ./'' @ scriptId @ '' ''
                       @ to_string scriptAttributes)])"
proof -
  have path: "getScriptRelativePath h subdirectory
     = asRelativePath h (path_resolve h (dirname h) (''../../scripts/'' @ subdirectory))"
    by (simp only: getScriptRelativePath_def)
  have repo: "scriptSelector_js h ''create-repo.sh'' scriptAttributes
                = createRepoSh_js h ''create-repo.sh'' scriptAttributes"
    by (simp add: scriptSelector_js_def)
  have pipeline: "scriptSelector_js h ''pipeline_generator.sh'' scriptAttributes
                = pipelineGeneratorSh_js h ''pipeline_generator.sh'' scriptAttributes"
    by (simp add: scriptSelector_js_def)
  have ts: "filter is_Exec (scriptSelector_ts h scriptId scriptPath scriptAttributes)
            = [Exec (''cd '' @ to_string scriptPath @ '' ; ./'' @ scriptId @ '' ''
                       @ to_string scriptAttributes)]"
    if "truthy scriptAttributes"
      and "scriptId \<in> {''create-repo.sh'', ''add-secret.sh'', ''pipeline_generator.sh''}"
    using that by (rule filter_is_Exec_scriptSelector_ts)
  have repo_run: "scriptSelector_js h ''create-repo.sh'' scriptAttributes
     = Exec (''cd '' @ getScriptRelativePath h ''repositories/github'' @ '' ; ./create-repo.sh ''
               @ to_string scriptAttributes) #
       (case exec h (''cd '' @ getScriptRelativePath h ''repositories/github''
                       @ '' ; ./create-repo.sh '' @ to_string scriptAttributes) of
          Exited0 out \<Rightarrow> [ConsoleInfo (''STDOUT'' @ [CHR 0x0A] @ out),
                           ShowInformationMessage (up_button @ '' CREATING REPO ...'')]
        | Failed error \<Rightarrow> [ConsoleError (ErrorObj ''Error'' (to_string error)),
                            ShowErrorMessage (to_string (ErrorObj ''Error'' (to_string error)))])"
    unfolding repo createRepoSh_js_run by simp
  have pipeline_run: "scriptSelector_js h ''pipeline_generator.sh'' scriptAttributes
     = Exec (''cd '' @ getScriptRelativePath h ''pipelines/github'' @ '' ; ./pipeline_generator.sh ''
               @ to_string scriptAttributes) #
       (case exec h (''cd '' @ getScriptRelativePath h ''pipelines/github''
                       @ '' ; ./pipeline_generator.sh '' @ to_string scriptAttributes) of
          Exited0 out \<Rightarrow> [ConsoleInfo (''STDOUT'' @ [CHR 0x0A] @ out),
                           ShowInformationMessage (fast_forward @ '' GENERATING PIPELINE ...'')]
        | Failed error \<Rightarrow> [ConsoleError (ErrorObj ''Error'' (to_string error)),
                            ShowErrorMessage (to_string (ErrorObj ''Error'' (to_string error)))])"
    unfolding pipeline pipelineGeneratorSh_js_run by simp
  show ?thesis using path repo_run pipeline_run ts by blast
qed

theorem mapped_scripts_run_witness:
  "scriptSelector_js host_ok ''create-repo.sh'' (Str ''-a create -n repo-test -d /tmp/x'')
     = [Exec ''cd /ext/out/src/../../scripts/repositories/github ; ./create-repo.sh -a create -n repo-test -d /tmp/x'',
        ConsoleInfo (''STDOUT'' @ [CHR 0x0A] @ ''ok''),
        ShowInformationMessage (up_button @ '' CREATING REPO ...'')]
   \<and> filter is_Exec (scriptSelector_ts host_ok ''add-secret.sh'' (Str ''/tmp'') (Str ''-x''))
     = [Exec ''cd /tmp ; ./add-secret.sh -x'']"
  using mapped_scripts_run [of host_ok "''repositories/github''"
          "Str ''-a create -n repo-test -d /tmp/x''" "''create-repo.sh''" "Str ''/tmp''"]
        mapped_scripts_run [of host_ok "''repositories/github''"
          "Str ''-x''" "''add-secret.sh''" "Str ''/tmp''"]
  by (simp add: host_ok_def)

text \<open>
  The claim as stated fails for add-secret.sh: hangarScripts.js, the variant that resolves
  the category directory, has no case for it and answers with the unknown-id error;
  hangarScripts.ts executes it, in whatever directory the caller names.
\<close>

theorem known_mapping_counterexample:
  "scriptSelector_js host_ok ''add-secret.sh'' (Str ''-x'')
     = [ShowErrorMessage (stop_sign @ '' No script found for radio button ID: add-secret.sh'')]
   \<and> filter is_Exec (scriptSelector_ts host_ok ''add-secret.sh'' (Str ''/anywhere'') (Str ''-x''))
     = [Exec ''cd /anywhere ; ./add-secret.sh -x'']"
  by (simp add: scriptSelector_js_def no_script_found_def filter_is_Exec_scriptSelector_ts)

section \<open>Reporting the outcome of the script\<close>

lemma scriptSelector_ts_create_panel:
  assumes "truthy scriptAttributes"
  shows "filter is_panel (scriptSelector_ts h ''create-repo.sh'' scriptPath scriptAttributes)
           = [CreateWebviewPanel (''<h1>'' @ up_button
                @ '' THE REPO HAS BEEN CREATED !!!</h1><br><p>You can close this tab now.</p>''),
              DisposePanel]"
  using assms
  by (simp add: scriptSelector_ts_def createRepoSh_ts_def displayPanel_def
        filter_is_panel_executeScript_ts)

lemma scriptSelector_ts_secret_panel:
  assumes "truthy scriptAttributes"
  shows "filter is_panel (scriptSelector_ts h ''add-secret.sh'' scriptPath scriptAttributes)
           = [CreateWebviewPanel (''<h1>'' @ fast_forward
                @ '' THE SECRET HAS BEEN ADDED !!!</h1><br><p>You can close this tab now.</p>''),
              DisposePanel]"
  using assms
  by (simp add: scriptSelector_ts_def addSecretSh_ts_def displayPanel_def
        filter_is_panel_executeScript_ts)

lemma scriptSelector_ts_pipeline_panel:
  assumes "truthy scriptAttributes"
  shows "filter is_panel (scriptSelector_ts h ''pipeline_generator.sh'' scriptPath scriptAttributes)
           = [CreateWebviewPanel (''<h1>'' @ fast_forward
                @ '' THE PIPELINE HAS BEEN CREATED !!!</h1><br><p>You can close this tab now.</p>''),
              DisposePanel]"
  using assms
  by (simp add: scriptSelector_ts_def pipelineGeneratorSh_ts_def displayPanel_def
        filter_is_panel_executeScript_ts)

lemma scriptSelector_ts_exited0:
  assumes "truthy scriptAttributes"
    and "scriptId \<in> {''create-repo.sh'', ''add-secret.sh'', ''pipeline_generator.sh''}"
    and "exec h (''cd '' @ to_string scriptPath @ '' ; ./'' @ scriptId @ '' ''
                   @ to_string scriptAttributes) = Exited0 out"
  shows "filter (\<lambda>e. \<not> is_panel e) (scriptSelector_ts h scriptId scriptPath scriptAttributes)
           = [Exec (''cd '' @ to_string scriptPath @ '' ; ./'' @ scriptId @ '' ''
                      @ to_string scriptAttributes)]"
  unfolding scriptSelector_ts_truthy [OF assms(1,2)] executeScript_ts_no_panel
  using assms(3) by (rule executeScript_ts_exited0)

lemma scriptSelector_ts_failed:
  assumes "truthy scriptAttributes"
    and "scriptId \<in> {''create-repo.sh'', ''add-secret.sh'', ''pipeline_generator.sh''}"
    and "exec h (''cd '' @ to_string scriptPath @ '' ; ./'' @ scriptId @ '' ''
                   @ to_string scriptAttributes) = Failed error"
  shows "filter (\<lambda>e. \<not> is_panel e) (scriptSelector_ts h scriptId scriptPath scriptAttributes)
           = [Exec (''cd '' @ to_string scriptPath @ '' ; ./'' @ scriptId @ '' ''
                      @ to_string scriptAttributes),
              ConsoleError (Str (''Error executing script: '' @ error_text error)),
              ShowErrorMessage (''Error executing script: '' @ error_text error)]"
  unfolding scriptSelector_ts_truthy [OF assms(1,2)] executeScript_ts_no_panel
  using assms(3) by (rule executeScript_ts_failed)

lemma filter_filter_report:
  "filter is_success_report xs = filter is_success_report (filter (\<lambda>e. \<not> is_panel e) xs)"
proof -
  have "is_success_report e \<Longrightarrow> \<not> is_panel e" for e by (cases e) simp_all
  then show ?thesis by (auto simp: filter_filter intro: filter_cong)
qed

text \<open>
  C4, as the code has it. In hangarScripts.js, when the script exits with code 0, the
  dispatcher logs "STDOUT" and the captured output and then shows an informational
  notification of the action: "CREATING REPO ..." for create-repo.sh, "GENERATING PIPELINE ..."
  for pipeline_generator.sh, two different messages; that is the whole run, with no panel. In
  hangarScripts.ts a successful run, for each of the three ids, shows no informational
  notification and logs no output; what it displays is the one-shot panel of the action:
  "THE REPO HAS BEEN CREATED !!!" for create-repo.sh, "THE SECRET HAS BEEN ADDED !!!" for
  add-secret.sh, "THE PIPELINE HAS BEEN CREATED !!!" for pipeline_generator.sh.
\<close>

theorem successful_run_reported:
  "(exec h (''cd '' @ getScriptRelativePath h ''repositories/github'' @ '' ; ./create-repo.sh ''
              @ to_string scriptAttributes) = Exited0 out
      \<longrightarrow> scriptSelector_js h ''create-repo.sh'' scriptAttributes
            = [Exec (''cd '' @ getScriptRelativePath h ''repositories/github''
                       @ '' ; ./create-repo.sh '' @ to_string scriptAttributes),
               ConsoleInfo (''STDOUT'' @ [CHR 0x0A] @ out),
               ShowInformationMessage (up_button @ '' CREATING REPO ...'')])
   \<and> (exec h (''cd '' @ getScriptRelativePath h ''pipelines/github'' @ '' ; ./pipeline_generator.sh ''
              @ to_string scriptAttributes) = Exited0 out
      \<longrightarrow> scriptSelector_js h ''pipeline_generator.sh'' scriptAttributes
            = [Exec (''cd '' @ getScriptRelativePath h ''pipelines/github''
                       @ '' ; ./pipeline_generator.sh '' @ to_string scriptAttributes),
               ConsoleInfo (''STDOUT'' @ [CHR 0x0A] @ out),
               ShowInformationMessage (fast_forward @ '' GENERATING PIPELINE ...'')])
   \<and> up_button @ '' CREATING REPO ...'' \<noteq> fast_forward @ '' GENERATING PIPELINE ...''
   \<and> sublist ''CREATING'' (up_button @ '' CREATING REPO ...'')
   \<and> (truthy scriptAttributes
        \<and> scriptId \<in> {''create-repo.sh'', ''add-secret.sh'', ''pipeline_generator.sh''}
        \<and> exec h (''cd '' @ to_string scriptPath @ '' ; ./'' @ scriptId @ '' ''
                     @ to_string scriptAttributes) = Exited0 out
      \<longrightarrow> filter is_success_report (scriptSelector_ts h scriptId scriptPath scriptAttributes) = [])
   \<and> (truthy scriptAttributes
        \<and> exec h (''cd '' @ to_string scriptPath @ '' ; ./create-repo.sh ''
                     @ to_string scriptAttributes) = Exited0 out
      \<longrightarrow> filter is_panel (scriptSelector_ts h ''create-repo.sh'' scriptPath scriptAttributes)
            = [CreateWebviewPanel (''<h1>'' @ up_button
                 @ '' THE REPO HAS BEEN CREATED !!!</h1><br><p>You can close this tab now.</p>''),
               DisposePanel])
   \<and> (truthy scriptAttributes
        \<and> exec h (''cd '' @ to_string scriptPath @ '' ; ./add-secret.sh ''
                     @ to_string scriptAttributes) = Exited0 out
      \<longrightarrow> filter is_panel (scriptSelector_ts h ''add-secret.sh'' scriptPath scriptAttributes)
            = [CreateWebviewPanel (''<h1>'' @ fast_forward
                 @ '' THE SECRET HAS BEEN ADDED !!!</h1><br><p>You can close this tab now.</p>''),
               DisposePanel])
   \<and> (truthy scriptAttributes
        \<and> exec h (''cd '' @ to_string scriptPath @ '' ; ./pipeline_generator.sh ''
                     @ to_string scriptAttributes) = Exited0 out
      \<longrightarrow> filter is_panel (scriptSelector_ts h ''pipeline_generator.sh'' scriptPath scriptAttributes)
            = [CreateWebviewPanel (''<h1>'' @ fast_forward
                 @ '' THE PIPELINE HAS BEEN CREATED !!!</h1><br><p>You can close this tab now.</p>''),
               DisposePanel])"
proof -
  have repo: "scriptSelector_js h ''create-repo.sh'' scriptAttributes
            = [Exec (''cd '' @ getScriptRelativePath h ''repositories/github''
                       @ '' ; ./create-repo.sh '' @ to_string scriptAttributes),
               ConsoleInfo (''STDOUT'' @ [CHR 0x0A] @ out),
               ShowInformationMessage (up_button @ '' CREATING REPO ...'')]"
    if "exec h (''cd '' @ getScriptRelativePath h ''repositories/github'' @ '' ; ./create-repo.sh ''
              @ to_string scriptAttributes) = Exited0 out"
    using that by (simp add: scriptSelector_js_def createRepoSh_js_run)
  have pipeline: "scriptSelector_js h ''pipeline_generator.sh'' scriptAttributes
            = [Exec (''cd '' @ getScriptRelativePath h ''pipelines/github''
                       @ '' ; ./pipeline_generator.sh '' @ to_string scriptAttributes),
               ConsoleInfo (''STDOUT'' @ [CHR 0x0A] @ out),
               ShowInformationMessage (fast_forward @ '' GENERATING PIPELINE ...'')]"
    if "exec h (''cd '' @ getScriptRelativePath h ''pipelines/github'' @ '' ; ./pipeline_generator.sh ''
              @ to_string scriptAttributes) = Exited0 out"
    using that by (simp add: scriptSelector_js_def pipelineGeneratorSh_js_run)
  have distinct: "up_button @ '' CREATING REPO ...'' \<noteq> fast_forward @ '' GENERATING PIPELINE ...''"
    by (simp add: up_button_def fast_forward_def)
  have "sublist ''CREATING'' ((up_button @ '' '') @ ''CREATING'' @ '' REPO ...'')"
    by (rule sublist_appendI)
  then have creating: "sublist ''CREATING'' (up_button @ '' CREATING REPO ...'')"
    by simp
  have ts: "filter is_success_report (scriptSelector_ts h scriptId scriptPath scriptAttributes) = []"
    if "truthy scriptAttributes"
      and "scriptId \<in> {''create-repo.sh'', ''add-secret.sh'', ''pipeline_generator.sh''}"
      and "exec h (''cd '' @ to_string scriptPath @ '' ; ./'' @ scriptId @ '' ''
                     @ to_string scriptAttributes) = Exited0 out"
    by (subst filter_filter_report) (simp add: scriptSelector_ts_exited0 [OF that])
  have panel: "filter is_panel (scriptSelector_ts h ''create-repo.sh'' scriptPath scriptAttributes)
            = [CreateWebviewPanel (''<h1>'' @ up_button
                 @ '' THE REPO HAS BEEN CREATED !!!</h1><br><p>You can close this tab now.</p>''),
               DisposePanel]"
    if "truthy scriptAttributes"
    using that by (rule scriptSelector_ts_create_panel)
  have secret_panel:
    "filter is_panel (scriptSelector_ts h ''add-secret.sh'' scriptPath scriptAttributes)
            = [CreateWebviewPanel (''<h1>'' @ fast_forward
                 @ '' THE SECRET HAS BEEN ADDED !!!</h1><br><p>You can close this tab now.</p>''),
               DisposePanel]"
    if "truthy scriptAttributes"
    using that by (rule scriptSelector_ts_secret_panel)
  have pipeline_panel:
    "filter is_panel (scriptSelector_ts h ''pipeline_generator.sh'' scriptPath scriptAttributes)
            = [CreateWebviewPanel (''<h1>'' @ fast_forward
                 @ '' THE PIPELINE HAS BEEN CREATED !!!</h1><br><p>You can close this tab now.</p>''),
               DisposePanel]"
    if "truthy scriptAttributes"
    using that by (rule scriptSelector_ts_pipeline_panel)
  show ?thesis
    using repo pipeline distinct creating ts panel secret_panel pipeline_panel by blast
qed

theorem successful_run_reported_witness:
  "scriptSelector_js host_ok ''pipeline_generator.sh'' (Str ''-c x.cfg'')
     = [Exec ''cd /ext/out/src/../../scripts/pipelines/github ; ./pipeline_generator.sh -c x.cfg'',
        ConsoleInfo (''STDOUT'' @ [CHR 0x0A] @ ''ok''),
        ShowInformationMessage (fast_forward @ '' GENERATING PIPELINE ...'')]
   \<and> scriptSelector_js host_ok ''create-repo.sh'' (Str ''-c x.cfg'')
     = [Exec ''cd /ext/out/src/../../scripts/repositories/github ; ./create-repo.sh -c x.cfg'',
        ConsoleInfo (''STDOUT'' @ [CHR 0x0A] @ ''ok''),
        ShowInformationMessage (up_button @ '' CREATING REPO ...'')]
   \<and> filter is_success_report
         (scriptSelector_ts host_ok ''create-repo.sh'' (Str ''/tmp'') (Str ''-c x.cfg'')) = []
   \<and> filter is_panel
         (scriptSelector_ts host_ok ''create-repo.sh'' (Str ''/tmp'') (Str ''-c x.cfg''))
     = [CreateWebviewPanel (''<h1>'' @ up_button
          @ '' THE REPO HAS BEEN CREATED !!!</h1><br><p>You can close this tab now.</p>''),
        DisposePanel]
   \<and> filter is_panel
         (scriptSelector_ts host_ok ''add-secret.sh'' (Str ''/tmp'') (Str ''-c x.cfg''))
     = [CreateWebviewPanel (''<h1>'' @ fast_forward
          @ '' THE SECRET HAS BEEN ADDED !!!</h1><br><p>You can close this tab now.</p>''),
        DisposePanel]
   \<and> filter is_panel
         (scriptSelector_ts host_ok ''pipeline_generator.sh'' (Str ''/tmp'') (Str ''-c x.cfg''))
     = [CreateWebviewPanel (''<h1>'' @ fast_forward
          @ '' THE PIPELINE HAS BEEN CREATED !!!</h1><br><p>You can close this tab now.</p>''),
        DisposePanel]"
  using successful_run_reported [of host_ok "Str ''-c x.cfg''" "''ok''" "''create-repo.sh''" "Str ''/tmp''"]
  by (simp add: getScriptRelativePath_def host_ok_def)

text \<open>
  The claim as stated fails in both variants on the scenario of the specification: the run
  of hangarScripts.js has the log and the notification but no panel, and the run of
  hangarScripts.ts has the panel, opened and disposed before the script is executed, but
  neither notification nor log.
\<close>

theorem successful_run_counterexample:
  "scriptSelector_js host_ok ''create-repo.sh'' (Str ''-a create -n repo-test -d /tmp/x'')
     = [Exec ''cd /ext/out/src/../../scripts/repositories/github ; ./create-repo.sh -a create -n repo-test -d /tmp/x'',
        ConsoleInfo (''STDOUT'' @ [CHR 0x0A] @ ''ok''),
        ShowInformationMessage (up_button @ '' CREATING REPO ...'')]
   \<and> scriptSelector_ts host_ok ''create-repo.sh'' (Str ''/tmp'')
         (Str ''-a create -n repo-test -d /tmp/x'')
     = [CreateWebviewPanel (''<h1>'' @ up_button
          @ '' THE REPO HAS BEEN CREATED !!!</h1><br><p>You can close this tab now.</p>''),
        DisposePanel,
        Exec ''cd /tmp ; ./create-repo.sh -a create -n repo-test -d /tmp/x'']"
  by (simp add: scriptSelector_ts_def createRepoSh_ts_def displayPanel_def executeScript_ts_def
        scriptSelector_js_def createRepoSh_js_run getScriptRelativePath_def host_ok_def)

text \<open>
  C6. When the process fails, with a non-zero exit code or because it could not be started,
  the dispatcher executes the command once and then logs and shows the failure.
  hangarScripts.ts logs and shows "Error executing script: " followed by the text of the
  error; hangarScripts.js logs the error it rethrows, whose message is the rendering of the
  original error, and shows the rendering of that. Both notifications contain the text of the
  error, and no run executes the command a second time.
\<close>

theorem process_failure_reported:
  "(truthy scriptAttributes
      \<and> scriptId \<in> {''create-repo.sh'', ''add-secret.sh'', ''pipeline_generator.sh''}
      \<and> exec h (''cd '' @ to_string scriptPath @ '' ; ./'' @ scriptId @ '' ''
                   @ to_string scriptAttributes) = Failed error
    \<longrightarrow> filter (\<lambda>e. \<not> is_panel e) (scriptSelector_ts h scriptId scriptPath scriptAttributes)
          = [Exec (''cd '' @ to_string scriptPath @ '' ; ./'' @ scriptId @ '' ''
                     @ to_string scriptAttributes),
             ConsoleError (Str (''Error executing script: '' @ error_text error)),
             ShowErrorMessage (''Error executing script: '' @ error_text error)])
   \<and> (exec h (''cd '' @ getScriptRelativePath h ''repositories/github'' @ '' ; ./create-repo.sh ''
              @ to_string scriptAttributes) = Failed error
    \<longrightarrow> scriptSelector_js h ''create-repo.sh'' scriptAttributes
          = [Exec (''cd '' @ getScriptRelativePath h ''repositories/github''
                     @ '' ; ./create-repo.sh '' @ to_string scriptAttributes),
             ConsoleError (ErrorObj ''Error'' (to_string error)),
             ShowErrorMessage (to_string (ErrorObj ''Error'' (to_string error)))])
   \<and> (exec h (''cd '' @ getScriptRelativePath h ''pipelines/github'' @ '' ; ./pipeline_generator.sh ''
              @ to_string scriptAttributes) = Failed error
    \<longrightarrow> scriptSelector_js h ''pipeline_generator.sh'' scriptAttributes
          = [Exec (''cd '' @ getScriptRelativePath h ''pipelines/github''
                     @ '' ; ./pipeline_generator.sh '' @ to_string scriptAttributes),
             ConsoleError (ErrorObj ''Error'' (to_string error)),
             ShowErrorMessage (to_string (ErrorObj ''Error'' (to_string error)))])
   \<and> sublist (error_text error) (''Error executing script: '' @ error_text error)
   \<and> sublist (error_text error) (to_string (ErrorObj ''Error'' (to_string error)))"
proof -
  have ts: "filter (\<lambda>e. \<not> is_panel e) (scriptSelector_ts h scriptId scriptPath scriptAttributes)
          = [Exec (''cd '' @ to_string scriptPath @ '' ; ./'' @ scriptId @ '' ''
                     @ to_string scriptAttributes),
             ConsoleError (Str (''Error executing script: '' @ error_text error)),
             ShowErrorMessage (''Error executing script: '' @ error_text error)]"
    if "truthy scriptAttributes"
      and "scriptId \<in> {''create-repo.sh'', ''add-secret.sh'', ''pipeline_generator.sh''}"
      and "exec h (''cd '' @ to_string scriptPath @ '' ; ./'' @ scriptId @ '' ''
                   @ to_string scriptAttributes) = Failed error"
    using that by (rule scriptSelector_ts_failed)
  have repo: "scriptSelector_js h ''create-repo.sh'' scriptAttributes
          = [Exec (''cd '' @ getScriptRelativePath h ''repositories/github''
                     @ '' ; ./create-repo.sh '' @ to_string scriptAttributes),
             ConsoleError (ErrorObj ''Error'' (to_string error)),
             ShowErrorMessage (to_string (ErrorObj ''Error'' (to_string error)))]"
    if "exec h (''cd '' @ getScriptRelativePath h ''repositories/github'' @ '' ; ./create-repo.sh ''
              @ to_string scriptAttributes) = Failed error"
    using that by (simp add: scriptSelector_js_def createRepoSh_js_run)
  have pipeline: "scriptSelector_js h ''pipeline_generator.sh'' scriptAttributes
          = [Exec (''cd '' @ getScriptRelativePath h ''pipelines/github''
                     @ '' ; ./pipeline_generator.sh '' @ to_string scriptAttributes),
             ConsoleError (ErrorObj ''Error'' (to_string error)),
             ShowErrorMessage (to_string (ErrorObj ''Error'' (to_string error)))]"
    if "exec h (''cd '' @ getScriptRelativePath h ''pipelines/github'' @ '' ; ./pipeline_generator.sh ''
              @ to_string scriptAttributes) = Failed error"
    using that by (simp add: scriptSelector_js_def pipelineGeneratorSh_js_run)
  have shown_ts: "sublist (error_text error) (''Error executing script: '' @ error_text error)"
    by (rule sublist_append_leftI)
  have shown_js: "sublist (error_text error) (to_string (ErrorObj ''Error'' (to_string error)))"
    by (rule sublist_rethrown)
  show ?thesis using ts repo pipeline shown_ts shown_js by blast
qed

theorem process_failure_reported_witness:
  "scriptSelector_js host_fail ''create-repo.sh'' (Str ''-x'')
     = [Exec ''cd /ext/out/src/../../scripts/repositories/github ; ./create-repo.sh -x'',
        ConsoleError (ErrorObj ''Error'' ''Error: Command failed: cd /ext/out/src/../../scripts/repositories/github ; ./create-repo.sh -x''),
        ShowErrorMessage ''Error: Error: Command failed: cd /ext/out/src/../../scripts/repositories/github ; ./create-repo.sh -x'']
   \<and> filter (\<lambda>e. \<not> is_panel e) (scriptSelector_ts host_fail ''add-secret.sh'' (Str ''/tmp'') (Str ''-x''))
     = [Exec ''cd /tmp ; ./add-secret.sh -x'',
        ConsoleError (Str ''Error executing script: Command failed: cd /tmp ; ./add-secret.sh -x''),
        ShowErrorMessage ''Error executing script: Command failed: cd /tmp ; ./add-secret.sh -x'']"
  using process_failure_reported [of "Str ''-x''" "''add-secret.sh''" host_fail "Str ''/tmp''"
          "ErrorObj ''Error'' ''Command failed: cd /tmp ; ./add-secret.sh -x''"]
        process_failure_reported [of "Str ''-x''" "''add-secret.sh''" host_fail "Str ''/tmp''"
          "ErrorObj ''Error'' ''Command failed: cd /ext/out/src/../../scripts/repositories/github ; ./create-repo.sh -x''"]
  by (simp add: getScriptRelativePath_def host_fail_def error_text_def)

section \<open>The command line\<close>

















end
